theory Spec2Isabelle
  imports Complex_Main "HOL-Library.List_Lexorder" "HOL-Library.Char_ord" "HOL-Library.AList"
begin

section \<open>Data model\<close>

text \<open>
  The order engine of the food-delivery backend: the Mongoose models \<open>Order\<close> and
  \<open>MenuItem\<close> and the Express routes of \<open>routes/orders.js\<close>.

  JavaScript numbers are modelled as exact numbers: prices and amounts are \<^typ>\<open>real\<close>,
  quantities that the validators force to be integers are \<^typ>\<open>int\<close>. A request field
  that no validator looks at and that the route adds to a number is a \<open>js_value\<close>, a
  number or a string. Documents live in
  collections that map an ObjectId to a document. Dates are milliseconds since the epoch.
  A thrown exception is the \<open>Inl\<close> branch of a result; the handlers drop the message text
  of an exception and keep its class. Fields that none of the four routes computes with
  (address, contact, notification flags, images and the like) are left out of the records,
  and so are the socket notifications a route sends after its writes. A stored document
  is a valid one: it has the fields its schema requires.
\<close>

type_synonym object_id = nat
type_synonym date = int

datatype error =
    ValidationError
  | NotFoundError
  | AuthorizationError
  | PaymentError
  | MongooseValidationError
  | DuplicateKeyError
  | TypeError
  | RangeError

datatype order_status =
    Pending | Confirmed | Preparing | ReadyForPickup | OutForDelivery
  | Delivered | Cancelled | Refunded

datatype payment_method = Card | Upi | Wallet | CashOnDelivery

datatype payment_status = PaymentPending | PaymentCompleted | PaymentFailed | PaymentRefunded

datatype payment_gateway = Razorpay | Stripe | Paytm | Phonepe

datatype item_status = Active | Inactive | OutOfStock

datatype restaurant_status = RActive | RInactive | TemporarilyClosed | PendingApproval

datatype role = User | Admin | RestaurantOwner

datatype review_status = ReviewActive | ReviewHidden | ReviewReported | ReviewDeleted

datatype js_value = JNumber real | JString string

subsection \<open>MenuItem\<close>

record option_config =
  opt_name :: string
  opt_price :: real

record customization_config =
  cust_name :: string
  cust_options :: "option_config list"

record addon_config =
  addon_name :: string
  addon_price :: real

record availability_info =
  isAvailable :: bool
  availableQuantity :: "int option"
  availableDays :: "string list"
  availableHours_start :: string
  availableHours_end :: string

record menu_item =
  mi_name :: string
  mi_restaurant :: object_id
  price :: real
  customizations :: "customization_config list"
  addOns :: "addon_config list"
  availability :: availability_info
  orderCount :: int
  isPopular :: bool
  mi_status :: item_status

text \<open>What a client selects for one line item (request body, not validated).\<close>

record selected_customization =
  sc_name :: string
  sc_selectedOption :: string

record selected_addon =
  sa_name :: string
  sa_quantity :: "real option"

text \<open>An add-on object as the request body of an order carries it: the order schema
  requires a price in it, which the client may send or not.\<close>

record request_addon = selected_addon +
  ra_price :: "real option"

subsection \<open>Order\<close>

record order_item =
  oi_menuItem :: object_id
  oi_name :: string
  oi_price :: real
  oi_quantity :: int
  oi_customizations :: "selected_customization list"
  oi_addOns :: "selected_addon list"
  oi_specialInstructions :: string
  itemTotal :: real

record order_pricing =
  subtotal :: real
  deliveryFee :: real
  tax :: real
  discount_amount :: real
  tip :: real
  total :: real

record status_entry =
  se_status :: order_status
  se_timestamp :: date
  se_note :: string
  se_updatedBy :: "object_id option"

record payment_info =
  pi_method :: payment_method
  pi_status :: payment_status
  transactionId :: "string option"
  paymentGateway :: "payment_gateway option"
  paidAt :: "date option"
  refundedAt :: "date option"
  refundAmount :: real

record delivery_tracking =
  pickedUpAt :: "date option"
  estimatedArrival :: "date option"

record order_rating =
  food :: "int option"
  delivery :: "int option"
  overall :: "int option"
  review :: "string option"
  ratedAt :: "date option"

record order =
  orderNumber :: string
  user :: object_id
  restaurant :: object_id
  items :: "order_item list"
  pricing :: order_pricing
  status :: order_status
  statusHistory :: "status_entry list"
  estimatedDeliveryTime :: date
  actualDeliveryTime :: "date option"
  paymentInfo :: payment_info
  deliveryTracking :: delivery_tracking
  rating :: order_rating
  specialRequests :: "string option"
  cancellationReason :: "string option"

subsection \<open>Restaurant, user, review, collections\<close>

record restaurant_doc =
  r_owner :: object_id
  r_status :: restaurant_status
  minimumOrder :: real
  r_deliveryFee :: real
  rating_average :: "real option"
  rating_count :: int
  totalOrders :: int
  totalRevenue :: real

record user_doc =
  u_id :: object_id
  u_role :: role

record review_doc =
  rv_user :: object_id
  rv_restaurant :: object_id
  rv_order :: object_id
  rv_menuItem :: "object_id option"
  rv_overall :: int
  rv_food :: int
  rv_delivery :: int
  rv_service :: int
  rv_packaging :: int
  rv_comment :: string
  isVerifiedPurchase :: bool
  rv_status :: review_status

record store =
  orders :: "object_id \<rightharpoonup> order"
  menuItems :: "object_id \<rightharpoonup> menu_item"
  restaurants :: "object_id \<rightharpoonup> restaurant_doc"
  reviews :: "review_doc list"

text \<open>
  What a handler reads from the runtime: the clock (\<open>Date.now()\<close>), the two strings
  the availability getter derives from \<open>new Date()\<close>, the ObjectId the driver generates for
  a new order, the order number the pre-save hook builds from the clock and the document
  count, the draw of \<open>Math.random()\<close> and the transaction id of the mock gateway, the
  phone-number predicate of express-validator, the string JavaScript makes of a number
  when it is added to a string, and the number Mongoose casts a string to, if any.
  \<open>currentDay\<close> is the outcome of
  \<open>new Date().toLocaleDateString('en-US', { weekday: 'lowercase' })\<close>, which is a
  string or a thrown exception. One request reads the clock once.
\<close>

record env =
  now :: date
  currentDay :: "error + string"
  currentTime :: string
  newObjectId :: object_id
  random :: real
  newTransactionId :: string
  isMobilePhone :: "string \<Rightarrow> bool"
  newOrderNumber :: string
  numberToString :: "real \<Rightarrow> string"
  numberOfString :: "string \<Rightarrow> real option"

section \<open>Order model methods\<close>

text \<open>\<open>orderSchema.methods.updateStatus(newStatus, note = '', updatedBy = null)\<close>;
  the document is returned as saved.\<close>

definition updateStatus :: "date \<Rightarrow> order \<Rightarrow> order_status \<Rightarrow> string option \<Rightarrow> object_id option \<Rightarrow> order" where
  "updateStatus t this newStatus note updatedBy =
    (let this1 = this\<lparr>status := newStatus\<rparr>;
         this2 = this1\<lparr>statusHistory := statusHistory this1 @
                   [\<lparr>se_status = newStatus, se_timestamp = t,
                     se_note = (case note of None \<Rightarrow> [] | Some n \<Rightarrow> n),
                     se_updatedBy = updatedBy\<rparr>]\<rparr>
     in (case newStatus of
           Confirmed \<Rightarrow> this2\<lparr>estimatedDeliveryTime := t + (30 + 20) * 60000\<rparr>
         | OutForDelivery \<Rightarrow>
             this2\<lparr>deliveryTracking := (deliveryTracking this2)
                      \<lparr>pickedUpAt := Some t, estimatedArrival := Some (t + 20 * 60000)\<rparr>\<rparr>
         | Delivered \<Rightarrow> this2\<lparr>actualDeliveryTime := Some t\<rparr>
         | _ \<Rightarrow> this2))"

definition nonCancellableStatuses :: "order_status list" where
  "nonCancellableStatuses = [OutForDelivery, Delivered, Cancelled, Refunded]"

definition canBeCancelled :: "order \<Rightarrow> bool" where
  "canBeCancelled this = (status this \<notin> set nonCancellableStatuses)"

definition calculateRefundAmount :: "order \<Rightarrow> real" where
  "calculateRefundAmount this =
    (if status this = Pending \<or> status this = Confirmed then total (pricing this)
     else if status this = Preparing then total (pricing this) * 0.8
     else if status this = ReadyForPickup then total (pricing this) * 0.5
     else 0)"

section \<open>MenuItem model methods\<close>

text \<open>The getter \<open>isCurrentlyAvailable\<close>. The day string is computed before it is
  looked at, so an exception of the runtime call leaves the getter there.\<close>

definition isCurrentlyAvailable :: "env \<Rightarrow> menu_item \<Rightarrow> error + bool" where
  "isCurrentlyAvailable e this =
    (if \<not> isAvailable (availability this) \<or> mi_status this \<noteq> Active then Inr False
     else if (case availableQuantity (availability this) of
                None \<Rightarrow> False | Some q \<Rightarrow> q \<le> 0) then Inr False
     else (case currentDay e of
             Inl err \<Rightarrow> Inl err
           | Inr day \<Rightarrow>
               if length (availableDays (availability this)) > 0
                  \<and> day \<notin> set (availableDays (availability this)) then Inr False
               else if currentTime e < availableHours_start (availability this)
                       \<or> currentTime e > availableHours_end (availability this) then Inr False
               else Inr True))"

text \<open>\<open>addOn.quantity || 1\<close>: a missing quantity and the falsy number 0 both give 1.\<close>

definition quantity_or_1 :: "real option \<Rightarrow> real" where
  "quantity_or_1 q = (case q of None \<Rightarrow> 1 | Some n \<Rightarrow> if n = 0 then 1 else n)"

definition customization_step :: "menu_item \<Rightarrow> selected_customization \<Rightarrow> real \<Rightarrow> real" where
  "customization_step this customization totalPrice =
    (case find (\<lambda>c. cust_name c = sc_name customization) (customizations this) of
       None \<Rightarrow> totalPrice
     | Some customizationConfig \<Rightarrow>
         (case find (\<lambda>opt. opt_name opt = sc_selectedOption customization)
                 (cust_options customizationConfig) of
            None \<Rightarrow> totalPrice
          | Some selectedOption \<Rightarrow> totalPrice + opt_price selectedOption))"

definition addon_step :: "menu_item \<Rightarrow> selected_addon \<Rightarrow> real \<Rightarrow> real" where
  "addon_step this addOn totalPrice =
    (case find (\<lambda>a. addon_name a = sa_name addOn) (addOns this) of
       None \<Rightarrow> totalPrice
     | Some addOnConfig \<Rightarrow> totalPrice + addon_price addOnConfig * quantity_or_1 (sa_quantity addOn))"

text \<open>\<open>menuItemSchema.methods.calculatePrice\<close>: two \<open>forEach\<close> loops over one
  accumulator.\<close>

definition calculatePrice :: "menu_item \<Rightarrow> selected_customization list \<Rightarrow> selected_addon list \<Rightarrow> real" where
  "calculatePrice this selCustomizations selAddOns =
     fold (addon_step this) selAddOns (fold (customization_step this) selCustomizations (price this))"

text \<open>The pre-save hook of a menu item.\<close>

definition menu_item_save :: "menu_item \<Rightarrow> menu_item" where
  "menu_item_save this = (if orderCount this \<ge> 50 then this\<lparr>isPopular := True\<rparr> else this)"

section \<open>Route \<open>PATCH /api/orders/:id/status\<close>\<close>

record status_req =
  sr_status :: order_status
  sr_note :: "string option"

text \<open>The values \<open>body('status').isIn([...])\<close> lets through.\<close>

definition allowedStatusValues :: "order_status list" where
  "allowedStatusValues =
     [Pending, Confirmed, Preparing, ReadyForPickup, OutForDelivery, Delivered, Cancelled]"

text \<open>The object literal \<open>validTransitions\<close>; a status without a key reads as
  \<open>undefined\<close>.\<close>

definition validTransitions :: "order_status \<rightharpoonup> order_status list" where
  "validTransitions = map_of
     [(Pending, [Confirmed, Cancelled]),
      (Confirmed, [Preparing, Cancelled]),
      (Preparing, [ReadyForPickup, Cancelled]),
      (ReadyForPickup, [OutForDelivery]),
      (OutForDelivery, [Delivered]),
      (Delivered, []),
      (Cancelled, [])]"

text \<open>\<open>canUpdate\<close>: the order is loaded with its restaurant populated, which is
  \<open>null\<close> when the restaurant document is gone.\<close>

definition canUpdate :: "store \<Rightarrow> user_doc \<Rightarrow> order \<Rightarrow> error + bool" where
  "canUpdate st reqUser ord =
    (if u_role reqUser = Admin then Inr True
     else if u_role reqUser = RestaurantOwner then
       (case restaurants st (restaurant ord) of
          None \<Rightarrow> Inl TypeError
        | Some r \<Rightarrow> Inr (r_owner r = u_id reqUser))
     else Inr False)"

definition patch_status ::
  "env \<Rightarrow> user_doc \<Rightarrow> object_id \<Rightarrow> status_req \<Rightarrow> store \<Rightarrow> (error + order) \<times> store" where
  "patch_status e reqUser oid req st =
    (if sr_status req \<notin> set allowedStatusValues then (Inl ValidationError, st)
     else case orders st oid of
       None \<Rightarrow> (Inl NotFoundError, st)
     | Some ord \<Rightarrow>
        (case canUpdate st reqUser ord of
           Inl err \<Rightarrow> (Inl err, st)
         | Inr False \<Rightarrow> (Inl AuthorizationError, st)
         | Inr True \<Rightarrow>
            (case validTransitions (status ord) of
               None \<Rightarrow> (Inl TypeError, st)
             | Some successors \<Rightarrow>
                 if sr_status req \<notin> set successors then (Inl ValidationError, st)
                 else
                   let saved = updateStatus (now e) ord (sr_status req) (sr_note req)
                                 (Some (u_id reqUser))
                   in (Inr saved, st\<lparr>orders := (orders st)(oid \<mapsto> saved)\<rparr>))))"

section \<open>Route \<open>PATCH /api/orders/:id/cancel\<close>\<close>

text \<open>The loop that gives the quantities back; \<open>restore_step\<close> is its body, and each
  changed menu item is saved.\<close>

definition restore_step ::
  "order_item \<Rightarrow> (object_id \<rightharpoonup> menu_item) \<Rightarrow> (object_id \<rightharpoonup> menu_item)" where
  "restore_step item ms =
    (case ms (oi_menuItem item) of
       None \<Rightarrow> ms
     | Some menuItem \<Rightarrow>
        (case availableQuantity (availability menuItem) of
           None \<Rightarrow> ms
         | Some q \<Rightarrow>
             ms(oi_menuItem item \<mapsto>
               menu_item_save (menuItem\<lparr>availability := (availability menuItem)
                 \<lparr>availableQuantity := Some (q + oi_quantity item)\<rparr>\<rparr>))))"

fun restore_quantities ::
  "order_item list \<Rightarrow> (object_id \<rightharpoonup> menu_item) \<Rightarrow> (object_id \<rightharpoonup> menu_item)" where
  "restore_quantities [] ms = ms"
| "restore_quantities (item # rest) ms = restore_quantities rest (restore_step item ms)"

text \<open>The request carries the reason; a missing reason and the empty string both fail
  \<open>notEmpty()\<close>. The response carries the refund amount.\<close>

definition cancel_order ::
  "env \<Rightarrow> user_doc \<Rightarrow> object_id \<Rightarrow> string \<Rightarrow> store \<Rightarrow> (error + real) \<times> store" where
  "cancel_order e reqUser oid reason st =
    (if reason = [] then (Inl ValidationError, st)
     else case orders st oid of
       None \<Rightarrow> (Inl NotFoundError, st)
     | Some ord \<Rightarrow>
        if user ord \<noteq> u_id reqUser \<and> u_role reqUser \<noteq> Admin then (Inl AuthorizationError, st)
        else if \<not> canBeCancelled ord then (Inl ValidationError, st)
        else
          let refund = calculateRefundAmount ord;
              ord1 = ord\<lparr>status := Cancelled, cancellationReason := Some reason,
                       statusHistory := statusHistory ord @
                         [\<lparr>se_status = Cancelled, se_timestamp = now e,
                           se_note = ''Cancelled by ''
                             @ (if u_role reqUser = Admin then ''admin'' else ''customer'')
                             @ '': '' @ reason,
                           se_updatedBy = Some (u_id reqUser)\<rparr>]\<rparr>;
              ord2 = (if pi_status (paymentInfo ord1) = PaymentCompleted \<and> refund > 0
                      then ord1\<lparr>paymentInfo := (paymentInfo ord1)
                             \<lparr>pi_status := PaymentRefunded, refundedAt := Some (now e),
                              refundAmount := refund\<rparr>\<rparr>
                      else ord1);
              st1 = st\<lparr>orders := (orders st)(oid \<mapsto> ord2)\<rparr>
          in (Inr refund, st1\<lparr>menuItems := restore_quantities (items ord2) (menuItems st1)\<rparr>))"

section \<open>Route \<open>POST /api/orders/:id/rate\<close>\<close>

record rate_req =
  rr_food :: int
  rr_delivery :: int
  rr_overall :: int
  rr_review :: "string option"

text \<open>Truthiness of \<open>order.rating.overall\<close>.\<close>

definition truthy :: "int option \<Rightarrow> bool" where
  "truthy v = (case v of None \<Rightarrow> False | Some n \<Rightarrow> n \<noteq> 0)"

definition rate_validators :: "rate_req \<Rightarrow> bool" where
  "rate_validators req =
    (1 \<le> rr_food req \<and> rr_food req \<le> 5
     \<and> 1 \<le> rr_delivery req \<and> rr_delivery req \<le> 5
     \<and> 1 \<le> rr_overall req \<and> rr_overall req \<le> 5
     \<and> (case rr_review req of None \<Rightarrow> True | Some r \<Rightarrow> length r \<le> 500))"

text \<open>\<open>restaurantSchema.methods.updateRating(newRating)\<close>. With no review of the
  restaurant it stores \<open>newRating\<close> and the count 1. With reviews it adds each
  \<open>review.rating\<close>, which is an object and not a number, to the sum: the average is not
  a number and \<open>save\<close> refuses the document.\<close>

definition Restaurant_updateRating ::
  "object_id \<Rightarrow> restaurant_doc \<Rightarrow> real option \<Rightarrow> store \<Rightarrow> error option \<times> store" where
  "Restaurant_updateRating rid this newRating st =
    (if length (filter (\<lambda>r. rv_restaurant r = rid) (reviews st)) = 0 then
       (None, st\<lparr>restaurants := (restaurants st)(rid \<mapsto>
                 this\<lparr>rating_average := newRating, rating_count := 1\<rparr>)\<rparr>)
     else (Some MongooseValidationError, st))"

text \<open>\<open>Review.create\<close> with the post-save hook of the review schema: an active review
  updates the rating of its restaurant when the restaurant exists, and of its menu item
  when it names one that exists. \<open>menuItemSchema.methods.updateRating\<close> sums the rating
  objects of the item's reviews, the new review among them, in the same way, so its
  \<open>save\<close> is refused. An exception of the hook leaves \<open>Review.create\<close> after the
  review is stored.\<close>

definition Review_create :: "review_doc \<Rightarrow> store \<Rightarrow> error option \<times> store" where
  "Review_create doc st =
    (let st1 = st\<lparr>reviews := reviews st @ [doc]\<rparr>
     in if rv_status doc = ReviewActive then
          (case (case restaurants st1 (rv_restaurant doc) of
                   None \<Rightarrow> (None, st1)
                 | Some restaurant' \<Rightarrow>
                     Restaurant_updateRating (rv_restaurant doc) restaurant' None st1) of
             (Some err, st2) \<Rightarrow> (Some err, st2)
           | (None, st2) \<Rightarrow>
              (case rv_menuItem doc of
                 None \<Rightarrow> (None, st2)
               | Some mid \<Rightarrow>
                  (case menuItems st2 mid of
                     None \<Rightarrow> (None, st2)
                   | Some menuItem \<Rightarrow> (Some MongooseValidationError, st2))))
        else (None, st1))"

definition rate_order ::
  "env \<Rightarrow> user_doc \<Rightarrow> object_id \<Rightarrow> rate_req \<Rightarrow> store \<Rightarrow> (error + order_rating) \<times> store" where
  "rate_order e reqUser oid req st =
    (if \<not> rate_validators req then (Inl ValidationError, st)
     else case orders st oid of
       None \<Rightarrow> (Inl NotFoundError, st)
     | Some ord \<Rightarrow>
        if user ord \<noteq> u_id reqUser then (Inl AuthorizationError, st)
        else if status ord \<noteq> Delivered then (Inl ValidationError, st)
        else if truthy (overall (rating ord)) then (Inl ValidationError, st)
        else
          let saved = ord\<lparr>rating :=
                        \<lparr>food = Some (rr_food req), delivery = Some (rr_delivery req),
                         overall = Some (rr_overall req),
                         review = Some (case rr_review req of None \<Rightarrow> [] | Some r \<Rightarrow> r),
                         ratedAt = Some (now e)\<rparr>\<rparr>;
              st1 = st\<lparr>orders := (orders st)(oid \<mapsto> saved)\<rparr>;
              created = \<lparr>rv_user = u_id reqUser, rv_restaurant = restaurant saved,
                         rv_order = oid, rv_menuItem = None,
                         rv_overall = rr_overall req, rv_food = rr_food req,
                         rv_delivery = rr_delivery req, rv_service = rr_overall req,
                         rv_packaging = rr_food req,
                         rv_comment = (case rr_review req of
                                         None \<Rightarrow> ''No comment provided''
                                       | Some r \<Rightarrow> if r = [] then ''No comment provided'' else r),
                         isVerifiedPurchase = True, rv_status = ReviewActive\<rparr>
          in case Review_create created st1 of
               (Some err, st2) \<Rightarrow> (Inl err, st2)
             | (None, st2) \<Rightarrow> (Inr (rating saved), st2))"

section \<open>Route \<open>POST /api/orders\<close>\<close>

record item_req =
  ir_menuItem :: object_id
  ir_quantity :: int
  ir_customizations :: "selected_customization list"
  ir_addOns :: "request_addon list"
  ir_specialInstructions :: string

text \<open>\<open>req.body.tip\<close> passes no validator: it may be missing, a number or a string.\<close>

record create_req =
  cr_restaurant :: object_id
  cr_items :: "item_req list"
  cr_street :: string
  cr_city :: string
  cr_state :: string
  cr_zipCode :: string
  cr_phone :: string
  cr_method :: payment_method
  cr_tip :: "js_value option"
  cr_specialRequests :: "string option"

text \<open>A line item as the pricing loop pushes it, and the object \<open>orderData\<close> the route
  hands to \<open>Order.create\<close>. The object has no order number: the route sets none.\<close>

record line_item_data =
  li_menuItem :: object_id
  li_name :: string
  li_price :: real
  li_quantity :: int
  li_customizations :: "selected_customization list"
  li_addOns :: "request_addon list"
  li_specialInstructions :: string
  li_itemTotal :: real

record order_data =
  od_orderNumber :: "string option"
  od_user :: object_id
  od_restaurant :: object_id
  od_items :: "line_item_data list"
  od_subtotal :: real
  od_deliveryFee :: real
  od_tax :: real
  od_discount :: real
  od_tip :: js_value
  od_total :: js_value
  od_method :: payment_method
  od_paymentStatus :: payment_status
  od_specialRequests :: "string option"
  od_estimatedDeliveryTime :: date

record payment_result =
  pr_transactionId :: string
  pr_status :: payment_status
  pr_gateway :: payment_gateway

text \<open>The mock gateway: it succeeds when the random draw is above 0.1. The amount is
  only logged.\<close>

definition processPayment :: "env \<Rightarrow> payment_method \<Rightarrow> js_value \<Rightarrow> error + payment_result" where
  "processPayment e paymentMethod amount =
    (if random e > 0.1 then
       Inr \<lparr>pr_transactionId = newTransactionId e, pr_status = PaymentCompleted,
            pr_gateway = (if paymentMethod = Card then Stripe else Razorpay)\<rparr>
     else Inl PaymentError)"

text \<open>The express-validator chain of the route; ids and the payment method are typed.\<close>

definition create_validators :: "env \<Rightarrow> create_req \<Rightarrow> bool" where
  "create_validators e req =
    (length (cr_items req) \<ge> 1
     \<and> list_all (\<lambda>i. ir_quantity i \<ge> 1) (cr_items req)
     \<and> cr_street req \<noteq> [] \<and> cr_city req \<noteq> [] \<and> cr_state req \<noteq> [] \<and> cr_zipCode req \<noteq> []
     \<and> isMobilePhone e (cr_phone req))"

text \<open>\<open>MenuItem.find({ _id: { $in: ids }, restaurant, status: 'active' })\<close>: every
  matching document once, with its id. \<open>menuItem_query\<close> is the match of one id.\<close>

definition menuItem_query ::
  "store \<Rightarrow> object_id \<Rightarrow> object_id \<Rightarrow> (object_id \<times> menu_item) option" where
  "menuItem_query st restaurantId i =
    (case menuItems st i of
       None \<Rightarrow> None
     | Some m \<Rightarrow> if mi_restaurant m = restaurantId \<and> mi_status m = Active
                 then Some (i, m) else None)"

definition find_menuItems ::
  "store \<Rightarrow> object_id \<Rightarrow> object_id list \<Rightarrow> (object_id \<times> menu_item) list" where
  "find_menuItems st restaurantId ids =
     List.map_filter (menuItem_query st restaurantId) (remdups ids)"

text \<open>The pricing loop, with its accumulators \<open>subtotal\<close> and \<open>orderItems\<close>
  (local variables that share a name with a field of the order carry a prime).
  \<open>calculatePrice\<close> reads the name and the quantity of an add-on.\<close>

fun price_items ::
  "env \<Rightarrow> (object_id \<times> menu_item) list \<Rightarrow> item_req list \<Rightarrow> real \<Rightarrow> line_item_data list
     \<Rightarrow> error + (real \<times> line_item_data list)" where
  "price_items e found [] subtotal' orderItems = Inr (subtotal', orderItems)"
| "price_items e found (orderItem # rest) subtotal' orderItems =
    (case map_of found (ir_menuItem orderItem) of
       None \<Rightarrow> Inl TypeError
     | Some menuItem \<Rightarrow>
        (case isCurrentlyAvailable e menuItem of
           Inl err \<Rightarrow> Inl err
         | Inr False \<Rightarrow> Inl ValidationError
         | Inr True \<Rightarrow>
            if (case availableQuantity (availability menuItem) of
                  None \<Rightarrow> False | Some q \<Rightarrow> q < ir_quantity orderItem)
            then Inl ValidationError
            else
              let itemPrice = calculatePrice menuItem (ir_customizations orderItem)
                                (map selected_addon.truncate (ir_addOns orderItem));
                  itemTotal' = itemPrice * real_of_int (ir_quantity orderItem)
              in price_items e found rest (subtotal' + itemTotal')
                   (orderItems @
                     [\<lparr>li_menuItem = ir_menuItem orderItem, li_name = mi_name menuItem,
                       li_price = itemPrice, li_quantity = ir_quantity orderItem,
                       li_customizations = ir_customizations orderItem,
                       li_addOns = ir_addOns orderItem,
                       li_specialInstructions = ir_specialInstructions orderItem,
                       li_itemTotal = itemTotal'\<rparr>])))"

text \<open>\<open>req.body.tip || 0\<close>, and \<open>+\<close> with a number on the left: a string on the right
  makes it a concatenation.\<close>

definition tip_or_0 :: "js_value option \<Rightarrow> js_value" where
  "tip_or_0 t =
    (case t of
       None \<Rightarrow> JNumber 0
     | Some (JNumber v) \<Rightarrow> if v = 0 then JNumber 0 else JNumber v
     | Some (JString s) \<Rightarrow> if s = [] then JNumber 0 else JString s)"

definition js_plus :: "env \<Rightarrow> real \<Rightarrow> js_value \<Rightarrow> js_value" where
  "js_plus e a v =
    (case v of
       JNumber b \<Rightarrow> JNumber (a + b)
     | JString s \<Rightarrow> JString (numberToString e a @ s))"

text \<open>The route up to the order data: validators, restaurant and menu item lookups,
  the pricing loop, the minimum order and the charges. Nothing is written yet.\<close>

definition prepare_order ::
  "env \<Rightarrow> user_doc \<Rightarrow> create_req \<Rightarrow> store
     \<Rightarrow> error + (restaurant_doc \<times> (object_id \<times> menu_item) list \<times> order_data)" where
  "prepare_order e reqUser req st =
    (if \<not> create_validators e req then Inl ValidationError
     else case restaurants st (cr_restaurant req) of
       None \<Rightarrow> Inl NotFoundError
     | Some rest \<Rightarrow>
        if r_status rest \<noteq> RActive then Inl NotFoundError
        else
          let menuItemIds = map ir_menuItem (cr_items req);
              loaded = find_menuItems st (cr_restaurant req) menuItemIds
          in if length loaded \<noteq> length menuItemIds then Inl ValidationError
             else case price_items e loaded (cr_items req) 0 [] of
               Inl err \<Rightarrow> Inl err
             | Inr (subtotal', orderItems) \<Rightarrow>
                if subtotal' < minimumOrder rest then Inl ValidationError
                else
                  let deliveryFee' = r_deliveryFee rest;
                      tax' = subtotal' * 0.08;
                      discount' = 0;
                      tip' = tip_or_0 (cr_tip req);
                      total' = js_plus e (subtotal' + deliveryFee' + tax' - discount') tip'
                  in Inr (rest, loaded,
                        \<lparr>od_orderNumber = None,
                         od_user = u_id reqUser, od_restaurant = cr_restaurant req,
                         od_items = orderItems,
                         od_subtotal = subtotal', od_deliveryFee = deliveryFee',
                         od_tax = tax', od_discount = discount', od_tip = tip',
                         od_total = total',
                         od_method = cr_method req, od_paymentStatus = PaymentPending,
                         od_specialRequests = cr_specialRequests req,
                         od_estimatedDeliveryTime = now e + 45 * 60000\<rparr>))"

text \<open>The cast of a value to a \<open>Number\<close> path.\<close>

definition toNumber :: "env \<Rightarrow> js_value \<Rightarrow> real option" where
  "toNumber e v = (case v of JNumber n \<Rightarrow> Some n | JString s \<Rightarrow> numberOfString e s)"

text \<open>The validation of a new order document: the required paths that the data may
  lack (the order number, the price of an add-on), the casts, and the \<open>min\<close>
  validators.\<close>

definition order_data_valid :: "env \<Rightarrow> order_data \<Rightarrow> bool" where
  "order_data_valid e d =
    (od_orderNumber d \<noteq> None
     \<and> list_all (\<lambda>i. li_price i \<ge> 0 \<and> li_quantity i \<ge> 1
                      \<and> list_all (\<lambda>a. ra_price a \<noteq> None) (li_addOns i)) (od_items d)
     \<and> od_subtotal d \<ge> 0 \<and> od_deliveryFee d \<ge> 0 \<and> od_tax d \<ge> 0 \<and> od_discount d \<ge> 0
     \<and> (case toNumber e (od_tip d) of None \<Rightarrow> False | Some t \<Rightarrow> t \<ge> 0)
     \<and> (case toNumber e (od_total d) of None \<Rightarrow> False | Some t \<Rightarrow> t \<ge> 0))"

definition stored_item :: "line_item_data \<Rightarrow> order_item" where
  "stored_item i =
     \<lparr>oi_menuItem = li_menuItem i, oi_name = li_name i, oi_price = li_price i,
      oi_quantity = li_quantity i, oi_customizations = li_customizations i,
      oi_addOns = map selected_addon.truncate (li_addOns i),
      oi_specialInstructions = li_specialInstructions i, itemTotal = li_itemTotal i\<rparr>"

text \<open>\<open>Order.create\<close>: Mongoose validates the new document first; only then the
  pre-save hook runs, which sets the order number and the first history entry; then the
  insert under the generated id. The generated order number is taken to be a new one.\<close>

definition Order_create ::
  "env \<Rightarrow> order_data \<Rightarrow> store \<Rightarrow> (error + object_id \<times> order) \<times> store" where
  "Order_create e orderData st =
    (if \<not> order_data_valid e orderData then (Inl MongooseValidationError, st)
     else if orders st (newObjectId e) \<noteq> None then (Inl DuplicateKeyError, st)
     else case (toNumber e (od_tip orderData), toNumber e (od_total orderData)) of
       (Some tip', Some total') \<Rightarrow>
         let doc =
           \<lparr>orderNumber = newOrderNumber e,
            user = od_user orderData, restaurant = od_restaurant orderData,
            items = map stored_item (od_items orderData),
            pricing = \<lparr>subtotal = od_subtotal orderData,
                       deliveryFee = od_deliveryFee orderData, tax = od_tax orderData,
                       discount_amount = od_discount orderData, tip = tip', total = total'\<rparr>,
            status = Pending,
            statusHistory = [\<lparr>se_status = Pending, se_timestamp = now e,
                              se_note = ''Order placed'', se_updatedBy = None\<rparr>],
            estimatedDeliveryTime = od_estimatedDeliveryTime orderData,
            actualDeliveryTime = None,
            paymentInfo = \<lparr>pi_method = od_method orderData,
                           pi_status = od_paymentStatus orderData,
                           transactionId = None, paymentGateway = None,
                           paidAt = None, refundedAt = None, refundAmount = 0\<rparr>,
            deliveryTracking = \<lparr>pickedUpAt = None, estimatedArrival = None\<rparr>,
            rating = \<lparr>food = None, delivery = None, overall = None,
                      review = None, ratedAt = None\<rparr>,
            specialRequests = od_specialRequests orderData,
            cancellationReason = None\<rparr>
         in (Inr (newObjectId e, doc), st\<lparr>orders := (orders st)(newObjectId e \<mapsto> doc)\<rparr>)
     | _ \<Rightarrow> (Inl MongooseValidationError, st))"

text \<open>The payment block: skipped for cash on delivery; a failure deletes the order and
  is thrown again.\<close>

definition pay_for_order ::
  "env \<Rightarrow> payment_method \<Rightarrow> js_value \<Rightarrow> object_id \<Rightarrow> order \<Rightarrow> store
     \<Rightarrow> (error + order) \<times> store" where
  "pay_for_order e method amount oid ord st =
    (if method \<noteq> CashOnDelivery then
       (case processPayment e method amount of
          Inr paymentResult \<Rightarrow>
            let paid = ord\<lparr>paymentInfo := (paymentInfo ord)
                         \<lparr>pi_status := pr_status paymentResult,
                          transactionId := Some (pr_transactionId paymentResult),
                          paymentGateway := Some (pr_gateway paymentResult),
                          paidAt := Some (now e)\<rparr>\<rparr>
            in (Inr paid, st\<lparr>orders := (orders st)(oid \<mapsto> paid)\<rparr>)
        | Inl paymentError \<Rightarrow> (Inl paymentError, st\<lparr>orders := (orders st)(oid := None)\<rparr>))
     else (Inr ord, st))"

text \<open>The loop that takes the ordered quantities from the menu items. It works on the
  documents loaded before the pricing loop and saves each one twice.\<close>

fun update_quantities ::
  "(object_id \<times> menu_item) list \<Rightarrow> item_req list \<Rightarrow> (object_id \<rightharpoonup> menu_item)
     \<Rightarrow> error option \<times> (object_id \<rightharpoonup> menu_item)" where
  "update_quantities loaded [] ms = (None, ms)"
| "update_quantities loaded (orderItem # rest) ms =
    (case map_of loaded (ir_menuItem orderItem) of
       None \<Rightarrow> (Some TypeError, ms)
     | Some menuItem \<Rightarrow>
        let m1 = (case availableQuantity (availability menuItem) of
                    None \<Rightarrow> menuItem
                  | Some q \<Rightarrow>
                      menu_item_save (menuItem\<lparr>availability := (availability menuItem)
                        \<lparr>availableQuantity := Some (q - ir_quantity orderItem)\<rparr>\<rparr>));
            m2 = menu_item_save (m1\<lparr>orderCount := orderCount m1 + ir_quantity orderItem\<rparr>)
        in update_quantities (AList.update (ir_menuItem orderItem) m2 loaded) rest
             (ms(ir_menuItem orderItem \<mapsto> m2)))"

text \<open>The whole route: the order is created, paid for, the quantities are taken and the
  restaurant's counters updated; \<open>totalRevenue += total\<close> is cast when the restaurant is
  saved.\<close>

definition create_order ::
  "env \<Rightarrow> user_doc \<Rightarrow> create_req \<Rightarrow> store \<Rightarrow> (error + object_id \<times> order) \<times> store" where
  "create_order e reqUser req st =
    (case prepare_order e reqUser req st of
       Inl err \<Rightarrow> (Inl err, st)
     | Inr (rest, loaded, orderData) \<Rightarrow>
        (case Order_create e orderData st of
           (Inl err, st1) \<Rightarrow> (Inl err, st1)
         | (Inr (oid, ord), st1) \<Rightarrow>
            (case pay_for_order e (cr_method req) (od_total orderData) oid ord st1 of
               (Inl err, st2) \<Rightarrow> (Inl err, st2)
             | (Inr ord2, st2) \<Rightarrow>
                (case update_quantities loaded (cr_items req) (menuItems st2) of
                   (Some err, ms) \<Rightarrow> (Inl err, st2\<lparr>menuItems := ms\<rparr>)
                 | (None, ms) \<Rightarrow>
                    let st3 = st2\<lparr>menuItems := ms\<rparr>
                    in (case toNumber e (js_plus e (totalRevenue rest) (od_total orderData)) of
                          None \<Rightarrow> (Inl MongooseValidationError, st3)
                        | Some revenue \<Rightarrow>
                           (Inr (oid, ord2),
                            st3\<lparr>restaurants := (restaurants st3)(cr_restaurant req \<mapsto>
                              rest\<lparr>totalOrders := totalOrders rest + 1,
                                   totalRevenue := revenue\<rparr>)\<rparr>))))))"

section \<open>The specification's tables\<close>

text \<open>The transition graph as the specification lists it: a successor set for each of
  the seven states of the graph, and no row for \<open>refunded\<close>.\<close>

definition spec_successors :: "order_status \<rightharpoonup> order_status set" where
  "spec_successors =
     [Pending \<mapsto> {Confirmed, Cancelled},
      Confirmed \<mapsto> {Preparing, Cancelled},
      Preparing \<mapsto> {ReadyForPickup, Cancelled},
      ReadyForPickup \<mapsto> {OutForDelivery},
      OutForDelivery \<mapsto> {Delivered},
      Delivered \<mapsto> {},
      Cancelled \<mapsto> {}]"

text \<open>The refund policy as the specification words it: a share of the total by the
  status at cancellation time.\<close>

fun spec_refund :: "order_status \<Rightarrow> real \<Rightarrow> real" where
  "spec_refund Pending t = t"
| "spec_refund Confirmed t = t"
| "spec_refund Preparing t = 80 / 100 * t"
| "spec_refund ReadyForPickup t = 50 / 100 * t"
| "spec_refund OutForDelivery t = 0"
| "spec_refund Delivered t = 0"
| "spec_refund Cancelled t = 0"
| "spec_refund Refunded t = 0"

definition spec_nonCancellable :: "order_status set" where
  "spec_nonCancellable = {OutForDelivery, Delivered, Cancelled, Refunded}"





text \<open>What the line items of an order hold of one menu item.\<close>

definition returned_quantity :: "object_id \<Rightarrow> order_item list \<Rightarrow> int" where
  "returned_quantity m its =
     sum_list (map oi_quantity (filter (\<lambda>it. oi_menuItem it = m) its))"

section \<open>The runtime's weekday names\<close>

text \<open>
  \<open>Date.prototype.toLocaleDateString\<close> belongs to the JavaScript runtime, not to the
  repository. Its \<open>weekday\<close> option admits the values \<open>narrow\<close>, \<open>short\<close> and
  \<open>long\<close>; any other value raises \<open>RangeError\<close> (ECMA-402, the option is read with a
  list of allowed values). For \<open>en-US\<close> the names are capitalized.
\<close>

datatype weekday = Sunday | Monday | Tuesday | Wednesday | Thursday | Friday | Saturday

fun weekday_long :: "weekday \<Rightarrow> string" where
  "weekday_long Sunday = ''Sunday''"
| "weekday_long Monday = ''Monday''"
| "weekday_long Tuesday = ''Tuesday''"
| "weekday_long Wednesday = ''Wednesday''"
| "weekday_long Thursday = ''Thursday''"
| "weekday_long Friday = ''Friday''"
| "weekday_long Saturday = ''Saturday''"

definition toLocaleDateString_weekday :: "string \<Rightarrow> weekday \<Rightarrow> error + string" where
  "toLocaleDateString_weekday weekdayOption d =
    (if weekdayOption = ''long'' then Inr (weekday_long d)
     else if weekdayOption = ''short'' then Inr (take 3 (weekday_long d))
     else if weekdayOption = ''narrow'' then Inr (take 1 (weekday_long d))
     else Inl RangeError)"

section \<open>Sample documents\<close>

definition sample_item :: menu_item where
  "sample_item =
     \<lparr>mi_name = ''Burger'', mi_restaurant = 1, price = 10,
      customizations = [\<lparr>cust_name = ''size'',
                          cust_options = [\<lparr>opt_name = ''large'', opt_price = 2\<rparr>]\<rparr>],
      addOns = [\<lparr>addon_name = ''cheese'', addon_price = 1\<rparr>],
      availability = \<lparr>isAvailable = True, availableQuantity = Some 5, availableDays = [],
                      availableHours_start = ''00:00'', availableHours_end = ''23:59''\<rparr>,
      orderCount = 0, isPopular = False, mi_status = Active\<rparr>"

definition sample_restaurant :: restaurant_doc where
  "sample_restaurant =
     \<lparr>r_owner = 2, r_status = RActive, minimumOrder = 5, r_deliveryFee = 3,
      rating_average = Some 0, rating_count = 0, totalOrders = 0, totalRevenue = 0\<rparr>"

definition sample_order :: "order_status \<Rightarrow> order" where
  "sample_order s =
     \<lparr>orderNumber = ''ORD0000000010001'', user = 3, restaurant = 1,
      items = [\<lparr>oi_menuItem = 10, oi_name = ''Burger'', oi_price = 10, oi_quantity = 2,
                oi_customizations = [], oi_addOns = [], oi_specialInstructions = [],
                itemTotal = 20\<rparr>],
      pricing = \<lparr>subtotal = 20, deliveryFee = 3, tax = 1.6, discount_amount = 0,
                 tip = 75.4, total = 100\<rparr>,
      status = s,
      statusHistory = [\<lparr>se_status = s, se_timestamp = 0, se_note = ''Order placed'',
                        se_updatedBy = None\<rparr>],
      estimatedDeliveryTime = 2700000, actualDeliveryTime = None,
      paymentInfo = \<lparr>pi_method = Card, pi_status = PaymentCompleted,
                     transactionId = Some ''txn_0'', paymentGateway = Some Stripe,
                     paidAt = Some 0, refundedAt = None, refundAmount = 0\<rparr>,
      deliveryTracking = \<lparr>pickedUpAt = None, estimatedArrival = None\<rparr>,
      rating = \<lparr>food = None, delivery = None, overall = None, review = None,
                ratedAt = None\<rparr>,
      specialRequests = None, cancellationReason = None\<rparr>"

definition sample_store :: "order_status \<Rightarrow> store" where
  "sample_store s =
     \<lparr>orders = [5 \<mapsto> sample_order s], menuItems = [10 \<mapsto> sample_item],
      restaurants = [1 \<mapsto> sample_restaurant], reviews = []\<rparr>"

text \<open>The two conversions between numbers and strings, on the values the samples
  use: the string of 35.4, and the numbers Mongoose makes of two strings.\<close>

definition sample_numberToString :: "real \<Rightarrow> string" where
  "sample_numberToString x = (if x = 35.4 then ''35.4'' else ''0'')"

definition sample_numberOfString :: "string \<Rightarrow> real option" where
  "sample_numberOfString s =
     (if s = ''5'' then Some 5 else if s = ''35.45'' then Some 35.45 else None)"

text \<open>The environment of a request. The runtime rejects the weekday call of the
  availability getter (section on the weekday names).\<close>

definition sample_env :: env where
  "sample_env =
     \<lparr>now = 1000, currentDay = Inl RangeError, currentTime = ''12:00'', newObjectId = 7,
      random = 0.5, newTransactionId = ''txn_1'', isMobilePhone = (\<lambda>p. p \<noteq> []),
      newOrderNumber = ''ORD0000000010002'',
      numberToString = sample_numberToString, numberOfString = sample_numberOfString\<rparr>"


definition sample_admin :: user_doc where
  "sample_admin = \<lparr>u_id = 1, u_role = Admin\<rparr>"

definition sample_customer :: user_doc where
  "sample_customer = \<lparr>u_id = 3, u_role = User\<rparr>"

definition sample_req :: "payment_method \<Rightarrow> create_req" where
  "sample_req m =
     \<lparr>cr_restaurant = 1,
      cr_items = [\<lparr>ir_menuItem = 10, ir_quantity = 2,
                   ir_customizations = [\<lparr>sc_name = ''size'', sc_selectedOption = ''large''\<rparr>],
                   ir_addOns = [\<lparr>sa_name = ''cheese'', sa_quantity = Some 3,
                                 ra_price = Some 1\<rparr>],
                   ir_specialInstructions = []\<rparr>],
      cr_street = ''1 Main St'', cr_city = ''Pune'', cr_state = ''MH'', cr_zipCode = ''411001'',
      cr_phone = ''9999999999'', cr_method = m, cr_tip = None, cr_specialRequests = None\<rparr>"




text \<open>A delivered order whose restaurant is no longer in the collection.\<close>

definition orphan_store :: store where
  "orphan_store = (sample_store Delivered)\<lparr>restaurants := Map.empty\<rparr>"

definition rated_order :: order where
  "rated_order = (sample_order Delivered)\<lparr>rating :=
     \<lparr>food = Some 4, delivery = Some 5, overall = Some 4, review = Some ''good'',
      ratedAt = Some 500\<rparr>\<rparr>"

definition sample_rate_req :: rate_req where
  "sample_rate_req = \<lparr>rr_food = 1, rr_delivery = 2, rr_overall = 1, rr_review = None\<rparr>"

text \<open>The environment of a request on weekday \<open>d\<close> at time \<open>t\<close>, with the day string
  the runtime gives for the option value the getter passes.\<close>

definition runtime_env :: "weekday \<Rightarrow> string \<Rightarrow> env" where
  "runtime_env d t =
     sample_env\<lparr>currentDay := toLocaleDateString_weekday ''lowercase'' d, currentTime := t\<rparr>"

definition monday_item :: menu_item where
  "monday_item = sample_item\<lparr>availability := (availability sample_item)
                   \<lparr>availableQuantity := None, availableDays := [''monday'']\<rparr>\<rparr>"

section \<open>The order state machine\<close>

lemma validTransitions_spec: "map_option set (validTransitions s) = spec_successors s"
  by (cases s) (simp_all add: validTransitions_def spec_successors_def)

lemma validTransitions_obtain:
  assumes "spec_successors s = Some S"
  obtains successors where "validTransitions s = Some successors" and "S = set successors"
  using assms validTransitions_spec [of s] by (cases "validTransitions s") auto

lemma updateStatus_history:
  "length (statusHistory (updateStatus t ord n nt ub)) = length (statusHistory ord) + 1
   \<and> butlast (statusHistory (updateStatus t ord n nt ub)) = statusHistory ord
   \<and> se_status (last (statusHistory (updateStatus t ord n nt ub)))
       = status (updateStatus t ord n nt ub)
   \<and> status (updateStatus t ord n nt ub) = n"
  by (cases n) (simp_all add: updateStatus_def Let_def)

text \<open>An order whose status is \<open>refunded\<close> has no row in the route's table: the lookup
  gives \<open>undefined\<close> and the route ends in a \<open>TypeError\<close>, the store untouched. No
  route sets this status.\<close>

lemma patch_status_refunded:
  assumes "orders st oid = Some ord"
      and "canUpdate st reqUser ord = Inr True"
      and "status ord = Refunded"
      and "sr_status req \<noteq> Refunded"
  shows "patch_status e reqUser oid req st = (Inl TypeError, st)"
  using assms
  by (cases "sr_status req")
     (simp_all add: patch_status_def validTransitions_def allowedStatusValues_def)

text \<open>
  Claim C1. A status update whose target is not in the legal successor set of the order's
  current status fails with \<open>ValidationError\<close> and leaves the whole store, so the
  order's status and status history, as it was. The order exists, the caller passed the
  route's authorization check, and the current status is one of the seven states of the
  transition graph.
\<close>

theorem illegal_transition_rejected:
  assumes "orders st oid = Some ord"
      and "canUpdate st reqUser ord = Inr True"
      and "spec_successors (status ord) = Some S"
      and "sr_status req \<notin> S"
  shows "patch_status e reqUser oid req st = (Inl ValidationError, st)"
proof -
  from assms(3) obtain successors
    where "validTransitions (status ord) = Some successors" and "S = set successors"
    by (rule validTransitions_obtain)
  with assms show ?thesis
    by (simp add: patch_status_def)
qed

theorem illegal_transition_rejected_witness:
  "orders (sample_store Pending) 5 = Some (sample_order Pending)
   \<and> canUpdate (sample_store Pending) sample_admin (sample_order Pending) = Inr True
   \<and> spec_successors (status (sample_order Pending)) = Some {Confirmed, Cancelled}
   \<and> Delivered \<notin> {Confirmed, Cancelled}
   \<and> patch_status sample_env sample_admin 5 \<lparr>sr_status = Delivered, sr_note = None\<rparr>
         (sample_store Pending)
       = (Inl ValidationError, sample_store Pending)"
proof -
  have h1: "orders (sample_store Pending) 5 = Some (sample_order Pending)"
    by (simp add: sample_store_def)
  have h2: "canUpdate (sample_store Pending) sample_admin (sample_order Pending) = Inr True"
    by (simp add: canUpdate_def sample_admin_def)
  have h3: "spec_successors (status (sample_order Pending)) = Some {Confirmed, Cancelled}"
    by (simp add: spec_successors_def sample_order_def)
  have h4: "sr_status \<lparr>sr_status = Delivered, sr_note = None\<rparr> \<notin> {Confirmed, Cancelled}"
    by simp
  from illegal_transition_rejected [OF h1 h2 h3 h4, of sample_env] h1 h2 h3
  show ?thesis by simp
qed

text \<open>
  Claim C2. A legal status transition succeeds, saves the order, appends exactly one entry
  to the status history (the earlier entries stay), and the last entry carries the order's
  new status, which is the requested one.
\<close>

theorem legal_transition_appends_history:
  assumes "orders st oid = Some ord"
      and "canUpdate st reqUser ord = Inr True"
      and "spec_successors (status ord) = Some S"
      and "sr_status req \<in> S"
  shows "\<exists>ord'. patch_status e reqUser oid req st
                  = (Inr ord', st\<lparr>orders := (orders st)(oid \<mapsto> ord')\<rparr>)
          \<and> length (statusHistory ord') = length (statusHistory ord) + 1
          \<and> butlast (statusHistory ord') = statusHistory ord
          \<and> se_status (last (statusHistory ord')) = status ord'
          \<and> status ord' = sr_status req"
proof -
  from assms(3) obtain successors
    where v: "validTransitions (status ord) = Some successors" and S: "S = set successors"
    by (rule validTransitions_obtain)
  have allowed: "sr_status req \<in> set allowedStatusValues"
    using assms(3,4)
    by (cases "status ord")
       (auto simp: spec_successors_def allowedStatusValues_def split: if_splits)
  show ?thesis
    using assms v S allowed updateStatus_history
    by (simp add: patch_status_def Let_def)
qed

theorem legal_transition_appends_history_witness:
  "orders (sample_store Pending) 5 = Some (sample_order Pending)
   \<and> canUpdate (sample_store Pending) sample_admin (sample_order Pending) = Inr True
   \<and> spec_successors (status (sample_order Pending)) = Some {Confirmed, Cancelled}
   \<and> Confirmed \<in> {Confirmed, Cancelled}
   \<and> (\<exists>ord'. fst (patch_status sample_env sample_admin 5
                     \<lparr>sr_status = Confirmed, sr_note = None\<rparr> (sample_store Pending)) = Inr ord'
          \<and> length (statusHistory ord') = 2
          \<and> se_status (last (statusHistory ord')) = Confirmed
          \<and> status ord' = Confirmed)"
proof -
  have h1: "orders (sample_store Pending) 5 = Some (sample_order Pending)"
    by (simp add: sample_store_def)
  have h2: "canUpdate (sample_store Pending) sample_admin (sample_order Pending) = Inr True"
    by (simp add: canUpdate_def sample_admin_def)
  have h3: "spec_successors (status (sample_order Pending)) = Some {Confirmed, Cancelled}"
    by (simp add: spec_successors_def sample_order_def)
  have h4: "sr_status \<lparr>sr_status = Confirmed, sr_note = None\<rparr> \<in> {Confirmed, Cancelled}"
    by simp
  have l: "length (statusHistory (sample_order Pending)) = 1"
    by (simp add: sample_order_def)
  from legal_transition_appends_history [OF h1 h2 h3 h4, of sample_env] l
  have "\<exists>ord'. fst (patch_status sample_env sample_admin 5
                     \<lparr>sr_status = Confirmed, sr_note = None\<rparr> (sample_store Pending)) = Inr ord'
          \<and> length (statusHistory ord') = 2
          \<and> se_status (last (statusHistory ord')) = Confirmed
          \<and> status ord' = Confirmed"
    by auto
  with h1 h2 h3 show ?thesis by simp
qed

section \<open>Cancellation and refund\<close>

lemma calculateRefundAmount_spec:
  "calculateRefundAmount ord = spec_refund (status ord) (total (pricing ord))"
  by (cases "status ord") (simp_all add: calculateRefundAmount_def)

lemma cancel_order_amount:
  assumes "cancel_order e reqUser oid reason st = (Inr amount, st')"
      and "orders st oid = Some ord"
  shows "amount = calculateRefundAmount ord"
  using assms by (simp add: cancel_order_def Let_def split: if_splits)

lemma sample_cancel_fst:
  "s \<notin> set nonCancellableStatuses \<Longrightarrow>
   fst (cancel_order sample_env sample_customer 5 ''late'' (sample_store s))
     = Inr (calculateRefundAmount (sample_order s))"
  by (simp add: cancel_order_def sample_store_def sample_customer_def canBeCancelled_def
        Let_def sample_order_def)

lemma canBeCancelled_spec: "canBeCancelled ord \<longleftrightarrow> status ord \<notin> spec_nonCancellable"
  by (simp add: canBeCancelled_def nonCancellableStatuses_def spec_nonCancellable_def)

text \<open>
  Claim C3. The refund amount is a function of the status at cancellation time and the
  total alone: the whole total for pending and confirmed, 80 percent for preparing, 50
  percent for ready for pickup, 0 otherwise. It is the amount a successful cancellation
  answers with, computed from the status the order had before it was cancelled.
\<close>

theorem refund_follows_policy:
  "calculateRefundAmount ord = spec_refund (status ord) (total (pricing ord))
   \<and> (\<forall>e reqUser oid reason st amount st'.
         orders st oid = Some ord
         \<longrightarrow> cancel_order e reqUser oid reason st = (Inr amount, st')
         \<longrightarrow> amount = spec_refund (status ord) (total (pricing ord)))"
  using calculateRefundAmount_spec cancel_order_amount by metis

theorem refund_follows_policy_witness:
  "calculateRefundAmount (sample_order Pending) = 100
   \<and> calculateRefundAmount (sample_order Preparing) = 80
   \<and> calculateRefundAmount (sample_order ReadyForPickup) = 50
   \<and> orders (sample_store Preparing) 5 = Some (sample_order Preparing)
   \<and> fst (cancel_order sample_env sample_customer 5 ''late'' (sample_store Preparing)) = Inr 80"
proof -
  have t: "total (pricing (sample_order s)) = 100" "status (sample_order s) = s" for s
    by (simp_all add: sample_order_def)
  have a: "calculateRefundAmount (sample_order Pending) = 100"
    using refund_follows_policy [of "sample_order Pending"] by (simp add: t)
  have b: "calculateRefundAmount (sample_order Preparing) = 80"
    using refund_follows_policy [of "sample_order Preparing"] by (simp add: t)
  have c: "calculateRefundAmount (sample_order ReadyForPickup) = 50"
    using refund_follows_policy [of "sample_order ReadyForPickup"] by (simp add: t)
  have h: "orders (sample_store Preparing) 5 = Some (sample_order Preparing)"
    by (simp add: sample_store_def)
  have "fst (cancel_order sample_env sample_customer 5 ''late'' (sample_store Preparing))
          = Inr (calculateRefundAmount (sample_order Preparing))"
    by (rule sample_cancel_fst) (simp add: nonCancellableStatuses_def)
  with a b c h show ?thesis by simp
qed

text \<open>The checks of the cancel route that come before the status check.\<close>

lemma cancel_order_before_status:
  "cancel_order e reqUser oid [] st = (Inl ValidationError, st)"
  "reason \<noteq> [] \<Longrightarrow> orders st oid = None
     \<Longrightarrow> cancel_order e reqUser oid reason st = (Inl NotFoundError, st)"
  "reason \<noteq> [] \<Longrightarrow> orders st oid = Some ord \<Longrightarrow> user ord \<noteq> u_id reqUser
     \<Longrightarrow> u_role reqUser \<noteq> Admin
     \<Longrightarrow> cancel_order e reqUser oid reason st = (Inl AuthorizationError, st)"
  by (simp_all add: cancel_order_def)

text \<open>
  Claim C4. For an existing order, a caller who may cancel it (its customer or an admin)
  and a non-empty reason, the cancellation fails with \<open>ValidationError\<close> exactly when the
  order's status is out for delivery, delivered, cancelled or refunded. In every other
  status, ready for pickup among them, it succeeds and the order is saved as cancelled.
\<close>

theorem cancel_rejected_iff_nonCancellable:
  assumes "orders st oid = Some ord"
      and "user ord = u_id reqUser \<or> u_role reqUser = Admin"
      and "reason \<noteq> []"
  shows "(status ord \<in> spec_nonCancellable
            \<longrightarrow> cancel_order e reqUser oid reason st = (Inl ValidationError, st))
       \<and> (status ord \<notin> spec_nonCancellable
            \<longrightarrow> (\<exists>amount st' ord'. cancel_order e reqUser oid reason st = (Inr amount, st')
                   \<and> orders st' oid = Some ord' \<and> status ord' = Cancelled))
       \<and> (fst (cancel_order e reqUser oid reason st) = Inl ValidationError
            \<longleftrightarrow> status ord \<in> spec_nonCancellable)
       \<and> (canBeCancelled ord \<longleftrightarrow> status ord \<notin> spec_nonCancellable)"
  using assms canBeCancelled_spec [of ord]
  by (auto simp: cancel_order_def Let_def)

theorem cancel_rejected_iff_nonCancellable_witness:
  "orders (sample_store ReadyForPickup) 5 = Some (sample_order ReadyForPickup)
   \<and> user (sample_order ReadyForPickup) = u_id sample_customer
   \<and> ''late'' \<noteq> []
   \<and> status (sample_order ReadyForPickup) \<notin> spec_nonCancellable
   \<and> fst (cancel_order sample_env sample_customer 5 ''late'' (sample_store ReadyForPickup))
        \<noteq> Inl ValidationError
   \<and> orders (sample_store OutForDelivery) 5 = Some (sample_order OutForDelivery)
   \<and> status (sample_order OutForDelivery) \<in> spec_nonCancellable
   \<and> cancel_order sample_env sample_customer 5 ''late'' (sample_store OutForDelivery)
        = (Inl ValidationError, sample_store OutForDelivery)"
proof -
  have o: "orders (sample_store s) 5 = Some (sample_order s)" for s
    by (simp add: sample_store_def)
  have u: "user (sample_order s) = u_id sample_customer \<or> u_role sample_customer = Admin" for s
    by (simp add: sample_order_def sample_customer_def)
  have r: "''late'' \<noteq> []" by simp
  have s1: "status (sample_order ReadyForPickup) \<notin> spec_nonCancellable"
    by (simp add: sample_order_def spec_nonCancellable_def)
  have s2: "status (sample_order OutForDelivery) \<in> spec_nonCancellable"
    by (simp add: sample_order_def spec_nonCancellable_def)
  from cancel_rejected_iff_nonCancellable [OF o u r, of ReadyForPickup sample_env] s1
  have a: "fst (cancel_order sample_env sample_customer 5 ''late'' (sample_store ReadyForPickup))
        \<noteq> Inl ValidationError" by blast
  from cancel_rejected_iff_nonCancellable [OF o u r, of OutForDelivery sample_env] s2
  have b: "cancel_order sample_env sample_customer 5 ''late'' (sample_store OutForDelivery)
        = (Inl ValidationError, sample_store OutForDelivery)" by blast
  from o s1 s2 a b show ?thesis
    by (simp add: sample_order_def sample_customer_def)
qed

section \<open>Restoring the inventory\<close>

lemma availability_menu_item_save [simp]:
  "availability (menu_item_save m) = availability m"
  by (simp add: menu_item_save_def)

lemma restore_step_other:
  "oi_menuItem it \<noteq> m \<Longrightarrow> restore_step it ms m = ms m"
  by (simp add: restore_step_def split: option.splits)

lemma restore_step_absent:
  "ms m = None \<Longrightarrow> restore_step it ms m = None"
  by (cases "oi_menuItem it = m") (simp_all add: restore_step_def split: option.splits)

lemma restore_step_unlimited:
  "ms m = Some mi \<Longrightarrow> availableQuantity (availability mi) = None
     \<Longrightarrow> restore_step it ms m = Some mi"
  by (cases "oi_menuItem it = m") (simp_all add: restore_step_def split: option.splits)

lemma restore_step_limited:
  "ms m = Some mi \<Longrightarrow> availableQuantity (availability mi) = Some q
     \<Longrightarrow> \<exists>mi'. restore_step it ms m = Some mi'
           \<and> availableQuantity (availability mi')
               = Some (q + (if oi_menuItem it = m then oi_quantity it else 0))"
  by (cases "oi_menuItem it = m") (simp_all add: restore_step_def split: option.splits)

lemma restore_quantities_absent:
  "ms m = None \<Longrightarrow> restore_quantities its ms m = None"
  by (induction its arbitrary: ms) (simp_all add: restore_step_absent)

lemma restore_quantities_unlimited:
  "ms m = Some mi \<Longrightarrow> availableQuantity (availability mi) = None
     \<Longrightarrow> restore_quantities its ms m = Some mi"
  by (induction its arbitrary: ms) (simp_all add: restore_step_unlimited)

lemma restore_quantities_unreferenced:
  "m \<notin> oi_menuItem ` set its \<Longrightarrow> restore_quantities its ms m = ms m"
  by (induction its arbitrary: ms) (simp_all add: restore_step_other)

lemma restore_quantities_limited:
  "ms m = Some mi \<Longrightarrow> availableQuantity (availability mi) = Some q
     \<Longrightarrow> \<exists>mi'. restore_quantities its ms m = Some mi'
            \<and> availableQuantity (availability mi') = Some (q + returned_quantity m its)"
proof (induction its arbitrary: ms mi q)
  case Nil
  then show ?case by (simp add: returned_quantity_def)
next
  case (Cons it its)
  let ?d = "if oi_menuItem it = m then oi_quantity it else 0"
  from restore_step_limited [of ms m mi q it] Cons.prems
  obtain mi1 where s: "restore_step it ms m = Some mi1"
      and a: "availableQuantity (availability mi1) = Some (q + ?d)"
    by blast
  from Cons.IH [of "restore_step it ms" mi1 "q + ?d"] s a
  obtain mi' where "restore_quantities its (restore_step it ms) m = Some mi'"
      and "availableQuantity (availability mi') = Some (q + ?d + returned_quantity m its)"
    by blast
  then show ?case by (simp add: returned_quantity_def)
qed

lemma returned_quantity_single:
  "distinct (map oi_menuItem its) \<Longrightarrow> it \<in> set its
     \<Longrightarrow> returned_quantity (oi_menuItem it) its = oi_quantity it"
proof (induction its)
  case Nil
  then show ?case by simp
next
  case (Cons a its)
  show ?case
  proof (cases "a = it")
    case True
    have "filter (\<lambda>x. oi_menuItem x = oi_menuItem it) its = []"
      using Cons.prems(1) True by (auto simp: filter_empty_conv image_iff)
    with True show ?thesis by (simp add: returned_quantity_def)
  next
    case False
    with Cons.prems have "it \<in> set its" "oi_menuItem a \<noteq> oi_menuItem it" by auto
    with Cons show ?thesis by (simp add: returned_quantity_def)
  qed
qed

lemma cancel_order_menuItems:
  assumes "cancel_order e reqUser oid reason st = (Inr amount, st')"
      and "orders st oid = Some ord"
  shows "menuItems st' = restore_quantities (items ord) (menuItems st)"
  using assms by (auto simp: cancel_order_def Let_def split: if_splits)

section \<open>Rating\<close>

text \<open>The hook of the review schema, for the review the rate route creates: with the
  restaurant in the collection the rating update is refused, without it the hook does
  nothing. The review is stored in both cases.\<close>

lemma Review_create_active:
  assumes "rv_status doc = ReviewActive" and "rv_menuItem doc = None"
  shows "Review_create doc st =
           (if restaurants st (rv_restaurant doc) = None then None
            else Some MongooseValidationError,
            st\<lparr>reviews := reviews st @ [doc]\<rparr>)"
  using assms
  by (simp add: Review_create_def Restaurant_updateRating_def Let_def split: option.splits)

text \<open>
  Claim C9. For an existing order and its customer, rating fails with \<open>ValidationError\<close>
  and changes nothing unless the order is delivered and carries no rating yet (the route
  reads \<open>rating.overall\<close>). A first rating with valid values stores the given values in
  the order. The route then creates the review, whose post-save hook updates the rating
  of the restaurant: the route answers with the stored rating when the restaurant is not
  in the collection, and with the validation error of Mongoose, after the rating is
  stored, when it is. Either way every further rating request of the customer for this
  order fails with \<open>ValidationError\<close> and leaves the store, so the stored rating, as it
  is.
\<close>

theorem rating_only_once:
  assumes "orders st oid = Some ord"
      and "user ord = u_id reqUser"
  shows "(status ord \<noteq> Delivered \<or> truthy (overall (rating ord))
            \<longrightarrow> rate_order e reqUser oid req st = (Inl ValidationError, st))
       \<and> (status ord = Delivered \<and> \<not> truthy (overall (rating ord)) \<and> rate_validators req
            \<longrightarrow> (\<exists>st' ord'.
                   rate_order e reqUser oid req st
                     = (if restaurants st (restaurant ord) = None then Inr (rating ord')
                        else Inl MongooseValidationError, st')
                   \<and> orders st' oid = Some ord'
                   \<and> food (rating ord') = Some (rr_food req)
                   \<and> delivery (rating ord') = Some (rr_delivery req)
                   \<and> overall (rating ord') = Some (rr_overall req)
                   \<and> ratedAt (rating ord') = Some (now e)
                   \<and> (\<forall>e2 req2. rate_order e2 reqUser oid req2 st'
                                   = (Inl ValidationError, st'))))"
proof (intro conjI impI)
  assume "status ord \<noteq> Delivered \<or> truthy (overall (rating ord))"
  with assms show "rate_order e reqUser oid req st = (Inl ValidationError, st)"
    by (auto simp: rate_order_def Let_def)
next
  assume a: "status ord = Delivered \<and> \<not> truthy (overall (rating ord)) \<and> rate_validators req"
  let ?saved = "ord\<lparr>rating :=
                  \<lparr>food = Some (rr_food req), delivery = Some (rr_delivery req),
                   overall = Some (rr_overall req),
                   review = Some (case rr_review req of None \<Rightarrow> [] | Some r \<Rightarrow> r),
                   ratedAt = Some (now e)\<rparr>\<rparr>"
  let ?created = "\<lparr>rv_user = u_id reqUser, rv_restaurant = restaurant ?saved,
                   rv_order = oid, rv_menuItem = None,
                   rv_overall = rr_overall req, rv_food = rr_food req,
                   rv_delivery = rr_delivery req, rv_service = rr_overall req,
                   rv_packaging = rr_food req,
                   rv_comment = (case rr_review req of
                                   None \<Rightarrow> ''No comment provided''
                                 | Some r \<Rightarrow> if r = [] then ''No comment provided'' else r),
                   isVerifiedPurchase = True, rv_status = ReviewActive\<rparr>"
  let ?st' = "st\<lparr>orders := (orders st)(oid \<mapsto> ?saved),
                 reviews := reviews st @ [?created]\<rparr>"
  have c: "Review_create ?created (st\<lparr>orders := (orders st)(oid \<mapsto> ?saved)\<rparr>)
             = (if restaurants st (restaurant ord) = None then None
                else Some MongooseValidationError, ?st')"
    by (simp add: Review_create_active)
  from assms a c have r: "rate_order e reqUser oid req st
      = (if restaurants st (restaurant ord) = None then Inr (rating ?saved)
         else Inl MongooseValidationError, ?st')"
    by (simp add: rate_order_def Let_def)
  have s: "orders ?st' oid = Some ?saved" by simp
  from a have t: "truthy (overall (rating ?saved))"
    by (simp add: truthy_def rate_validators_def)
  from assms a t have again: "rate_order e2 reqUser oid req2 ?st' = (Inl ValidationError, ?st')"
    for e2 req2
    by (simp add: rate_order_def Let_def)
  from r s again show "\<exists>st' ord'.
         rate_order e reqUser oid req st
           = (if restaurants st (restaurant ord) = None then Inr (rating ord')
              else Inl MongooseValidationError, st')
         \<and> orders st' oid = Some ord'
         \<and> food (rating ord') = Some (rr_food req)
         \<and> delivery (rating ord') = Some (rr_delivery req)
         \<and> overall (rating ord') = Some (rr_overall req)
         \<and> ratedAt (rating ord') = Some (now e)
         \<and> (\<forall>e2 req2. rate_order e2 reqUser oid req2 st' = (Inl ValidationError, st'))"
    by (intro exI [of _ ?st'] exI [of _ ?saved]) simp
qed

theorem rating_only_once_witness:
  "orders ((sample_store Delivered)\<lparr>orders := [5 \<mapsto> rated_order]\<rparr>) 5 = Some rated_order
   \<and> user rated_order = u_id sample_customer
   \<and> truthy (overall (rating rated_order))
   \<and> rate_order sample_env sample_customer 5 sample_rate_req
        ((sample_store Delivered)\<lparr>orders := [5 \<mapsto> rated_order]\<rparr>)
       = (Inl ValidationError, (sample_store Delivered)\<lparr>orders := [5 \<mapsto> rated_order]\<rparr>)
   \<and> orders orphan_store 5 = Some (sample_order Delivered)
   \<and> status (sample_order Delivered) = Delivered
   \<and> \<not> truthy (overall (rating (sample_order Delivered)))
   \<and> rate_validators sample_rate_req
   \<and> restaurants orphan_store (restaurant (sample_order Delivered)) = None
   \<and> (\<exists>r. fst (rate_order sample_env sample_customer 5 sample_rate_req orphan_store) = Inr r
          \<and> overall r = Some 1)
   \<and> orders (sample_store Delivered) 5 = Some (sample_order Delivered)
   \<and> restaurants (sample_store Delivered) (restaurant (sample_order Delivered))
       = Some sample_restaurant
   \<and> fst (rate_order sample_env sample_customer 5 sample_rate_req (sample_store Delivered))
       = Inl MongooseValidationError
   \<and> (\<exists>ord'. orders (snd (rate_order sample_env sample_customer 5 sample_rate_req
                             (sample_store Delivered))) 5 = Some ord'
          \<and> overall (rating ord') = Some 1)"
proof -
  let ?st = "(sample_store Delivered)\<lparr>orders := [5 \<mapsto> rated_order]\<rparr>"
  have a1: "orders ?st 5 = Some rated_order" by simp
  have a2: "user rated_order = u_id sample_customer"
    by (simp add: rated_order_def sample_order_def sample_customer_def)
  have a3: "truthy (overall (rating rated_order))"
    by (simp add: rated_order_def truthy_def)
  from rating_only_once [OF a1 a2, of sample_env sample_rate_req] a3
  have a: "rate_order sample_env sample_customer 5 sample_rate_req ?st
             = (Inl ValidationError, ?st)"
    by blast
  have b1: "orders orphan_store 5 = Some (sample_order Delivered)"
    by (simp add: orphan_store_def sample_store_def)
  have b2: "user (sample_order Delivered) = u_id sample_customer"
    by (simp add: sample_order_def sample_customer_def)
  have b3: "status (sample_order Delivered) = Delivered"
    by (simp add: sample_order_def)
  have b4: "\<not> truthy (overall (rating (sample_order Delivered)))"
    by (simp add: sample_order_def truthy_def)
  have b5: "rate_validators sample_rate_req"
    by (simp add: rate_validators_def sample_rate_req_def)
  have b6: "restaurants orphan_store (restaurant (sample_order Delivered)) = None"
    by (simp add: orphan_store_def)
  from rating_only_once [OF b1 b2, of sample_env sample_rate_req] b3 b4 b5 b6
  have b: "\<exists>r. fst (rate_order sample_env sample_customer 5 sample_rate_req orphan_store)
                  = Inr r \<and> overall r = Some 1"
    by (auto simp: sample_rate_req_def)
  have c1: "orders (sample_store Delivered) 5 = Some (sample_order Delivered)"
    by (simp add: sample_store_def)
  have c6: "restaurants (sample_store Delivered) (restaurant (sample_order Delivered))
              = Some sample_restaurant"
    by (simp add: sample_store_def sample_order_def)
  from rating_only_once [OF c1 b2, of sample_env sample_rate_req] b3 b4 b5 c6
  have c: "fst (rate_order sample_env sample_customer 5 sample_rate_req (sample_store Delivered))
             = Inl MongooseValidationError
         \<and> (\<exists>ord'. orders (snd (rate_order sample_env sample_customer 5 sample_rate_req
                                   (sample_store Delivered))) 5 = Some ord'
                \<and> overall (rating ord') = Some 1)"
    by (auto simp: sample_rate_req_def)
  from a1 a2 a3 a b1 b3 b4 b5 b6 b c1 c6 c show ?thesis by blast
qed

section \<open>Unit price\<close>








section \<open>Order placement\<close>



lemma js_plus_number:
  "t = None \<or> (\<exists>v. t = Some (JNumber v)) \<Longrightarrow>
     \<exists>v. tip_or_0 t = JNumber v \<and> js_plus e a (tip_or_0 t) = JNumber (a + v)"
  by (auto simp: tip_or_0_def js_plus_def)



text \<open>The other routes leave the pricing and the line items of every stored order as
  they are.\<close>

lemma updateStatus_pricing:
  "pricing (updateStatus t ord n nt ub) = pricing ord
   \<and> items (updateStatus t ord n nt ub) = items ord"
  by (cases n) (simp_all add: updateStatus_def Let_def)

lemma patch_status_keeps_pricing:
  assumes "orders st k = Some ord0"
  shows "\<exists>ord'. orders (snd (patch_status e reqUser oid req st)) k = Some ord'
           \<and> pricing ord' = pricing ord0 \<and> items ord' = items ord0"
  using assms updateStatus_pricing
  by (auto simp: patch_status_def Let_def split: option.splits sum.splits bool.splits)

lemma cancel_order_keeps_pricing:
  assumes "orders st k = Some ord0"
  shows "\<exists>ord'. orders (snd (cancel_order e reqUser oid reason st)) k = Some ord'
           \<and> pricing ord' = pricing ord0 \<and> items ord' = items ord0"
  using assms
  by (auto simp: cancel_order_def Let_def split: option.splits)

lemma rate_order_keeps_pricing:
  assumes "orders st k = Some ord0"
  shows "\<exists>ord'. orders (snd (rate_order e reqUser oid req st)) k = Some ord'
           \<and> pricing ord' = pricing ord0 \<and> items ord' = items ord0"
  using assms
  by (auto simp: rate_order_def Review_create_active Let_def split: option.splits)



section \<open>The payment block\<close>




section \<open>Inventory after a cancellation\<close>

text \<open>
  Claim C10. After a successful cancellation every menu item with a limited quantity holds
  its former quantity plus the quantities of the order's line items that refer to it; when
  no two line items refer to the same menu item, that is exactly the quantity of its line
  item. A menu item with an unlimited (null) quantity is left as it was, and so is every
  menu item the order does not mention.
\<close>

theorem cancel_restores_quantities:
  assumes "cancel_order e reqUser oid reason st = (Inr amount, st')"
      and "orders st oid = Some ord"
  shows "(\<forall>m mi q. menuItems st m = Some mi \<longrightarrow> availableQuantity (availability mi) = Some q
           \<longrightarrow> (\<exists>mi'. menuItems st' m = Some mi'
                  \<and> availableQuantity (availability mi') = Some (q + returned_quantity m (items ord))))
       \<and> (\<forall>it mi q. distinct (map oi_menuItem (items ord)) \<longrightarrow> it \<in> set (items ord)
           \<longrightarrow> menuItems st (oi_menuItem it) = Some mi
           \<longrightarrow> availableQuantity (availability mi) = Some q
           \<longrightarrow> (\<exists>mi'. menuItems st' (oi_menuItem it) = Some mi'
                  \<and> availableQuantity (availability mi') = Some (q + oi_quantity it)))
       \<and> (\<forall>m mi. menuItems st m = Some mi \<longrightarrow> availableQuantity (availability mi) = None
           \<longrightarrow> menuItems st' m = Some mi)
       \<and> (\<forall>m. m \<notin> oi_menuItem ` set (items ord) \<longrightarrow> menuItems st' m = menuItems st m)"
proof -
  have eq: "menuItems st' = restore_quantities (items ord) (menuItems st)"
    using assms by (rule cancel_order_menuItems)
  show ?thesis
  proof (intro conjI allI impI)
    fix m mi q
    assume "menuItems st m = Some mi" "availableQuantity (availability mi) = Some q"
    then show "\<exists>mi'. menuItems st' m = Some mi'
        \<and> availableQuantity (availability mi') = Some (q + returned_quantity m (items ord))"
      unfolding eq by (rule restore_quantities_limited)
  next
    fix it :: order_item and mi q
    assume d: "distinct (map oi_menuItem (items ord))" and i: "it \<in> set (items ord)"
      and "menuItems st (oi_menuItem it) = Some mi" "availableQuantity (availability mi) = Some q"
    then have "\<exists>mi'. menuItems st' (oi_menuItem it) = Some mi'
        \<and> availableQuantity (availability mi')
            = Some (q + returned_quantity (oi_menuItem it) (items ord))"
      unfolding eq by (intro restore_quantities_limited)
    then show "\<exists>mi'. menuItems st' (oi_menuItem it) = Some mi'
        \<and> availableQuantity (availability mi') = Some (q + oi_quantity it)"
      using returned_quantity_single [OF d i] by simp
  next
    fix m mi
    assume "menuItems st m = Some mi" "availableQuantity (availability mi) = None"
    then show "menuItems st' m = Some mi"
      unfolding eq by (rule restore_quantities_unlimited)
  next
    fix m
    assume "m \<notin> oi_menuItem ` set (items ord)"
    then show "menuItems st' m = menuItems st m"
      unfolding eq by (rule restore_quantities_unreferenced)
  qed
qed

theorem cancel_restores_quantities_witness:
  "cancel_order sample_env sample_customer 5 ''late'' (sample_store Pending)
     = (Inr 100, snd (cancel_order sample_env sample_customer 5 ''late'' (sample_store Pending)))
   \<and> orders (sample_store Pending) 5 = Some (sample_order Pending)
   \<and> menuItems (sample_store Pending) 10 = Some sample_item
   \<and> availableQuantity (availability sample_item) = Some 5
   \<and> (\<exists>mi'. menuItems (snd (cancel_order sample_env sample_customer 5 ''late''
                               (sample_store Pending))) 10 = Some mi'
          \<and> availableQuantity (availability mi') = Some 7)"
proof -
  let ?r = "cancel_order sample_env sample_customer 5 ''late'' (sample_store Pending)"
  have "fst ?r = Inr (calculateRefundAmount (sample_order Pending))"
    by (rule sample_cancel_fst) (simp add: nonCancellableStatuses_def)
  then have f: "fst ?r = Inr 100"
    by (simp add: calculateRefundAmount_def sample_order_def)
  then have h1: "?r = (Inr 100, snd ?r)"
    by (simp add: prod_eq_iff)
  have h2: "orders (sample_store Pending) 5 = Some (sample_order Pending)"
    by (simp add: sample_store_def)
  have h3: "menuItems (sample_store Pending) 10 = Some sample_item"
    by (simp add: sample_store_def)
  have h4: "availableQuantity (availability sample_item) = Some 5"
    by (simp add: sample_item_def)
  have r: "returned_quantity 10 (items (sample_order Pending)) = 2"
    by (simp add: returned_quantity_def sample_order_def)
  from cancel_restores_quantities [OF h1 h2] h3 h4 r
  have a: "\<exists>mi'. menuItems (snd ?r) 10 = Some mi'
          \<and> availableQuantity (availability mi') = Some 7"
    by fastforce
  from h1 h2 h3 h4 a show ?thesis by blast
qed

section \<open>Availability\<close>

text \<open>What the getter computes once the runtime has given a day string.\<close>

lemma isCurrentlyAvailable_iff:
  assumes "currentDay e = Inr day"
  shows "isCurrentlyAvailable e m = Inr True \<longleftrightarrow>
           isAvailable (availability m) \<and> mi_status m = Active
         \<and> (case availableQuantity (availability m) of None \<Rightarrow> True | Some q \<Rightarrow> q > 0)
         \<and> (availableDays (availability m) = [] \<or> day \<in> set (availableDays (availability m)))
         \<and> availableHours_start (availability m) \<le> currentTime e
         \<and> currentTime e \<le> availableHours_end (availability m)"
  using assms
  by (auto simp: isCurrentlyAvailable_def split: option.splits)

lemma isCurrentlyAvailable_total:
  assumes "currentDay e = Inr day"
  shows "isCurrentlyAvailable e m = Inr True \<or> isCurrentlyAvailable e m = Inr False"
  using assms by (simp add: isCurrentlyAvailable_def split: option.splits)

text \<open>With a day string from the runtime, an order for an item that is missing from the
  restaurant's active menu, is not currently available or has less than the requested
  quantity left is rejected with \<open>ValidationError\<close>, and nothing is written.\<close>

lemma price_items_unavailable:
  assumes "currentDay e = Inr day"
      and "\<forall>i \<in> set its. map_of found (ir_menuItem i) \<noteq> None"
      and "\<exists>i \<in> set its. \<exists>mi. map_of found (ir_menuItem i) = Some mi
             \<and> (isCurrentlyAvailable e mi \<noteq> Inr True
                \<or> (\<exists>q. availableQuantity (availability mi) = Some q \<and> q < ir_quantity i))"
  shows "price_items e found its s acc = Inl ValidationError"
  using assms(2,3)
proof (induction its arbitrary: s acc)
  case Nil
  then show ?case by simp
next
  case (Cons orderItem rest)
  from Cons.prems(1) obtain mi0 where l: "map_of found (ir_menuItem orderItem) = Some mi0"
    by auto
  from isCurrentlyAvailable_total [OF assms(1), of mi0]
  show ?case
  proof
    assume f: "isCurrentlyAvailable e mi0 = Inr False"
    with l show ?thesis by simp
  next
    assume t: "isCurrentlyAvailable e mi0 = Inr True"
    show ?thesis
    proof (cases "\<exists>q. availableQuantity (availability mi0) = Some q \<and> q < ir_quantity orderItem")
      case True
      with l t show ?thesis by auto
    next
      case False
      with Cons.prems(2) l t have bad: "\<exists>i \<in> set rest. \<exists>mi. map_of found (ir_menuItem i) = Some mi
             \<and> (isCurrentlyAvailable e mi \<noteq> Inr True
                \<or> (\<exists>q. availableQuantity (availability mi) = Some q \<and> q < ir_quantity i))"
        by auto
      from Cons.prems(1) have all: "\<forall>i \<in> set rest. map_of found (ir_menuItem i) \<noteq> None"
        by simp
      from False have nq: "\<not> (case availableQuantity (availability mi0) of
                  None \<Rightarrow> False | Some q \<Rightarrow> q < ir_quantity orderItem)"
        by (simp split: option.splits)
      from Cons.IH [OF all bad] l t nq show ?thesis
        by (simp add: Let_def)
    qed
  qed
qed

lemma map_of_map_filter_menuItem_query:
  "i \<in> set xs \<Longrightarrow> menuItem_query st rid i = Some (i, m)
     \<Longrightarrow> map_of (List.map_filter (menuItem_query st rid) xs) i = Some m"
proof (induction xs)
  case Nil
  then show ?case by simp
next
  case (Cons x xs)
  show ?case
  proof (cases "x = i")
    case True
    with Cons.prems show ?thesis by (simp add: List.map_filter_def)
  next
    case False
    have "menuItem_query st rid x = None \<or> (\<exists>m'. menuItem_query st rid x = Some (x, m'))"
      by (auto simp: menuItem_query_def split: option.splits)
    with False Cons show ?thesis by (auto simp: List.map_filter_def)
  qed
qed

lemma length_map_filter_full:
  "length (List.map_filter f xs) = length xs \<Longrightarrow> x \<in> set xs \<Longrightarrow> f x \<noteq> None"
proof -
  assume a: "length (List.map_filter f xs) = length xs" and x: "x \<in> set xs"
  have "length (List.map_filter f xs) = length (filter (\<lambda>x. f x \<noteq> None) xs)"
    by (simp add: List.map_filter_def)
  with a have "length (filter (\<lambda>x. f x \<noteq> None) xs) = length xs" by simp
  then have "filter (\<lambda>x. f x \<noteq> None) xs = xs"
    by (metis length_filter_less less_irrefl filter_True)
  with x have "x \<in> set (filter (\<lambda>x. f x \<noteq> None) xs)" by simp
  then show ?thesis by simp
qed

lemma find_menuItems_full:
  assumes "length (find_menuItems st rid ids) = length ids" and "i \<in> set ids"
  shows "\<exists>m. map_of (find_menuItems st rid ids) i = Some m \<and> menuItems st i = Some m
            \<and> mi_restaurant m = rid \<and> mi_status m = Active"
proof -
  have fm: "find_menuItems st rid ids = List.map_filter (menuItem_query st rid) (remdups ids)"
    by (simp add: find_menuItems_def)
  have a: "length (List.map_filter (menuItem_query st rid) (remdups ids)) \<le> length (remdups ids)"
    by (simp add: List.map_filter_def)
  have b: "length (remdups ids) \<le> length ids" by (rule length_remdups_leq)
  have c: "length (List.map_filter (menuItem_query st rid) (remdups ids)) = length ids"
    using assms(1) fm by simp
  from a b c
  have "length (List.map_filter (menuItem_query st rid) (remdups ids)) = length (remdups ids)"
    by linarith
  from length_map_filter_full [OF this, of i] assms(2)
  obtain r where r: "menuItem_query st rid i = Some r" by auto
  then obtain m where m: "menuItem_query st rid i = Some (i, m)" "menuItems st i = Some m"
      "mi_restaurant m = rid" "mi_status m = Active"
    by (auto simp: menuItem_query_def split: option.splits if_splits)
  from map_of_map_filter_menuItem_query [of i "remdups ids" st rid m] assms(2) m fm
  show ?thesis by simp
qed

lemma create_order_rejects_unavailable:
  assumes day: "currentDay e = Inr day"
      and v: "create_validators e req"
      and r: "restaurants st (cr_restaurant req) = Some rest" "r_status rest = RActive"
      and i: "i \<in> set (cr_items req)"
      and bad: "\<not> (\<exists>mi. menuItems st (ir_menuItem i) = Some mi
                     \<and> mi_restaurant mi = cr_restaurant req
                     \<and> isCurrentlyAvailable e mi = Inr True
                     \<and> (case availableQuantity (availability mi) of
                           None \<Rightarrow> True | Some q \<Rightarrow> ir_quantity i \<le> q))"
  shows "create_order e reqUser req st = (Inl ValidationError, st)"
proof -
  let ?ids = "map ir_menuItem (cr_items req)"
  let ?loaded = "find_menuItems st (cr_restaurant req) ?ids"
  have "prepare_order e reqUser req st = Inl ValidationError"
  proof (cases "length ?loaded = length ?ids")
    case False
    with v r show ?thesis by (simp add: prepare_order_def Let_def)
  next
    case True
    note full = find_menuItems_full [OF True]
    have all: "\<forall>j \<in> set (cr_items req). map_of ?loaded (ir_menuItem j) \<noteq> None"
      using full by fastforce
    from full [of "ir_menuItem i"] i obtain m where
        m: "map_of ?loaded (ir_menuItem i) = Some m" "menuItems st (ir_menuItem i) = Some m"
           "mi_restaurant m = cr_restaurant req"
      by auto
    with bad have "isCurrentlyAvailable e m \<noteq> Inr True
          \<or> (\<exists>q. availableQuantity (availability m) = Some q \<and> q < ir_quantity i)"
      by (cases "availableQuantity (availability m)") auto
    with i m have "\<exists>i \<in> set (cr_items req). \<exists>mi. map_of ?loaded (ir_menuItem i) = Some mi
             \<and> (isCurrentlyAvailable e mi \<noteq> Inr True
                \<or> (\<exists>q. availableQuantity (availability mi) = Some q \<and> q < ir_quantity i))"
      by blast
    from price_items_unavailable [OF day all this, of 0 "[]"] v r True
    show ?thesis by (simp add: prepare_order_def Let_def)
  qed
  then show ?thesis by (simp add: create_order_def)
qed

text \<open>
  Claim C7. The availability conditions of the claim all hold for a menu item that is
  flagged available, active, of unlimited quantity and restricted to Mondays, read on a
  Monday at 12:00 inside its hours. The getter asks the runtime for the weekday with the
  option value \<open>lowercase\<close>, which the runtime rejects: the getter raises \<open>RangeError\<close>
  instead of judging the item available, and so does the placement of an order for an item
  without any day restriction. No value of the option makes the runtime answer with the
  lowercase name the day lists hold.
\<close>

theorem weekday_option_rejected:
  "isAvailable (availability monday_item) \<and> mi_status monday_item = Active
   \<and> availableQuantity (availability monday_item) = None
   \<and> availableDays (availability monday_item) = [''monday'']
   \<and> availableHours_start (availability monday_item) \<le> ''12:00''
   \<and> ''12:00'' \<le> availableHours_end (availability monday_item)
   \<and> isCurrentlyAvailable (runtime_env Monday ''12:00'') monday_item = Inl RangeError
   \<and> isCurrentlyAvailable (runtime_env Monday ''12:00'') sample_item = Inl RangeError
   \<and> fst (create_order (runtime_env Monday ''12:00'') sample_customer (sample_req Card)
            (sample_store Pending)) = Inl RangeError
   \<and> (\<forall>weekdayOption d. toLocaleDateString_weekday weekdayOption d \<noteq> Inr ''monday'')"
proof -
  have "toLocaleDateString_weekday weekdayOption d \<noteq> Inr ''monday''" for weekdayOption d
    by (cases d) (simp_all add: toLocaleDateString_weekday_def)
  moreover have "toLocaleDateString_weekday ''lowercase'' Monday = Inl RangeError"
    by (simp add: toLocaleDateString_weekday_def)
  ultimately show ?thesis
    by (simp add: monday_item_def sample_item_def isCurrentlyAvailable_def runtime_env_def
          create_order_def prepare_order_def create_validators_def find_menuItems_def
          menuItem_query_def List.map_filter_def sample_env_def sample_req_def sample_store_def
          sample_restaurant_def)
qed

theorem weekday_option_rejected_witness:
  "isCurrentlyAvailable (runtime_env Monday ''12:00'') monday_item \<noteq> Inr True"
  using weekday_option_rejected by simp

end
